theory Spec2Isabelle
  imports Complex_Main
begin

section \<open>JavaScript numbers\<close>

text \<open>
  The fare finder computes with JavaScript Numbers: IEEE 754 binary64 values. A number
  of the model is a finite value other than the negative zero (\<open>Fin 0\<close> is the positive
  zero), the negative zero, NaN, or one of the two infinities. The result of an
  arithmetic operation is the exact result rounded to the nearest double, a tie going to
  the even significand, with overflow to an infinity and gradual underflow.
\<close>

datatype number = Fin real | NegZero | NaN | PosInf | NegInf

subsection \<open>Rounding to the nearest double\<close>

text \<open>
  The exponent of the binade of a positive real: the \<open>e\<close> between \<open>-1022\<close> and
  \<open>1023\<close> with \<open>2^e \<le> a < 2^(e+1)\<close>, \<open>-1022\<close> below the normal range and \<open>1023\<close>
  above it. It is searched upwards from \<open>0\<close> or downwards from \<open>-1\<close>.
\<close>

function binade_up :: "real \<Rightarrow> int \<Rightarrow> int" where
  "binade_up a e = (if e < 1023 \<and> 2 powi (e + 1) \<le> a then binade_up a (e + 1) else e)"
  by pat_completeness auto
termination
  by (relation "measure (\<lambda>(a, e). nat (1023 - e))") auto

function binade_down :: "real \<Rightarrow> int \<Rightarrow> int" where
  "binade_down a e = (if - 1022 < e \<and> a < 2 powi e then binade_down a (e - 1) else e)"
  by pat_completeness auto
termination
  by (relation "measure (\<lambda>(a, e). nat (e + 1022))") auto

declare binade_up.simps [simp del] binade_down.simps [simp del]

definition binade :: "real \<Rightarrow> int" where
  "binade a = (if 1 \<le> a then binade_up a 0 else binade_down a (- 1))"

text \<open>The nearest integer, a tie going to the even one.\<close>

definition round_nearest_even :: "real \<Rightarrow> int" where
  "round_nearest_even y =
     (let f = \<lfloor>y\<rfloor>; r = y - of_int f
      in if r < 1 / 2 then f else if 1 / 2 < r then f + 1 else if even f then f else f + 1)"

text \<open>
  A double of binade \<open>e\<close> is a multiple of \<open>2^(e - 52)\<close>. A result that reaches
  \<open>2^1024\<close> is an infinity; a result that rounds to zero keeps the sign of the exact
  value.
\<close>

definition quantum :: "real \<Rightarrow> real" where
  "quantum x = 2 powi (binade \<bar>x\<bar> - 52)"

definition nearest_multiple :: "real \<Rightarrow> real" where
  "nearest_multiple x = of_int (round_nearest_even (x / quantum x)) * quantum x"

definition round_double :: "real \<Rightarrow> number" where
  "round_double x =
     (if x = 0 then Fin 0
      else let y = nearest_multiple x
           in if 2 ^ 1024 \<le> y then PosInf
              else if y \<le> - (2 ^ 1024) then NegInf
              else if y = 0 then (if x < 0 then NegZero else Fin 0)
              else Fin y)"

subsection \<open>Arithmetic\<close>

fun finite_value :: "number \<Rightarrow> real option" where
  "finite_value (Fin a) = Some a"
| "finite_value NegZero = Some 0"
| "finite_value NaN = None"
| "finite_value PosInf = None"
| "finite_value NegInf = None"

fun sign_bit :: "number \<Rightarrow> bool" where
  "sign_bit (Fin a) = (a < 0)"
| "sign_bit NegZero = True"
| "sign_bit NaN = False"
| "sign_bit PosInf = False"
| "sign_bit NegInf = True"

definition signed_zero :: "bool \<Rightarrow> number" where
  "signed_zero negative = (if negative then NegZero else Fin 0)"

definition signed_infinity :: "bool \<Rightarrow> number" where
  "signed_infinity negative = (if negative then NegInf else PosInf)"

fun js_neg :: "number \<Rightarrow> number" where
  "js_neg (Fin a) = (if a = 0 then NegZero else Fin (- a))"
| "js_neg NegZero = Fin 0"
| "js_neg NaN = NaN"
| "js_neg PosInf = NegInf"
| "js_neg NegInf = PosInf"

text \<open>
  The sum of two finite numbers that is exactly zero is the positive zero, unless both
  are the negative zero; infinities of opposite sign add to NaN.
\<close>

definition js_add :: "number \<Rightarrow> number \<Rightarrow> number" where
  "js_add x y =
     (if x = NaN \<or> y = NaN then NaN
      else case (finite_value x, finite_value y) of
             (Some a, Some b) \<Rightarrow>
               if a + b = 0 then signed_zero (sign_bit x \<and> sign_bit y)
               else round_double (a + b)
           | (Some a, None) \<Rightarrow> y
           | (None, Some b) \<Rightarrow> x
           | (None, None) \<Rightarrow> if x = y then x else NaN)"

definition js_sub :: "number \<Rightarrow> number \<Rightarrow> number" where
  "js_sub x y = js_add x (js_neg y)"

text \<open>
  The sign of a product or a quotient is the exclusive or of the signs of the operands;
  an infinity times a zero, a zero by a zero and an infinity by an infinity are NaN.
\<close>

definition js_mul :: "number \<Rightarrow> number \<Rightarrow> number" where
  "js_mul x y =
     (if x = NaN \<or> y = NaN then NaN
      else case (finite_value x, finite_value y) of
             (Some a, Some b) \<Rightarrow>
               if a * b = 0 then signed_zero (sign_bit x \<noteq> sign_bit y)
               else round_double (a * b)
           | (Some a, None) \<Rightarrow>
               if a = 0 then NaN else signed_infinity (sign_bit x \<noteq> sign_bit y)
           | (None, Some b) \<Rightarrow>
               if b = 0 then NaN else signed_infinity (sign_bit x \<noteq> sign_bit y)
           | (None, None) \<Rightarrow> signed_infinity (sign_bit x \<noteq> sign_bit y))"

definition js_div :: "number \<Rightarrow> number \<Rightarrow> number" where
  "js_div x y =
     (if x = NaN \<or> y = NaN then NaN
      else case (finite_value x, finite_value y) of
             (Some a, Some b) \<Rightarrow>
               if b = 0
               then (if a = 0 then NaN else signed_infinity (sign_bit x \<noteq> sign_bit y))
               else if a = 0 then signed_zero (sign_bit x \<noteq> sign_bit y)
               else round_double (a / b)
           | (Some a, None) \<Rightarrow> signed_zero (sign_bit x \<noteq> sign_bit y)
           | (None, Some b) \<Rightarrow> signed_infinity (sign_bit x \<noteq> sign_bit y)
           | (None, None) \<Rightarrow> NaN)"

text \<open>
  \<open>Math.floor\<close> and \<open>Math.ceil\<close> leave the zeros, NaN and the infinities as they
  are; the ceiling of a value between \<open>-1\<close> and \<open>0\<close> is the negative zero. The floor
  and the ceiling of a double are doubles.
\<close>

fun Math_floor :: "number \<Rightarrow> number" where
  "Math_floor (Fin a) = Fin (of_int \<lfloor>a\<rfloor>)"
| "Math_floor x = x"

fun Math_ceil :: "number \<Rightarrow> number" where
  "Math_ceil (Fin a) = (if - 1 < a \<and> a < 0 then NegZero else Fin (of_int \<lceil>a\<rceil>))"
| "Math_ceil x = x"




text \<open>Bounds on a number by a real, for the proofs: NaN is within no bound.\<close>

definition at_most :: "number \<Rightarrow> real \<Rightarrow> bool" where
  "at_most x c =
     (case x of Fin a \<Rightarrow> a \<le> c | NegZero \<Rightarrow> 0 \<le> c | NegInf \<Rightarrow> True
      | NaN \<Rightarrow> False | PosInf \<Rightarrow> False)"


section \<open>The class Decimal\<close>

text \<open>
  \<^verbatim>\<open>var Decimal = function(amount, decimalPlaces)\<close> stores its two arguments.
  Every caller passes an integer literal for \<open>decimalPlaces\<close>.
\<close>

record decimal =
  amount :: number
  decimalPlaces :: int

definition Decimal :: "number \<Rightarrow> int \<Rightarrow> decimal" where
  "Decimal a n = \<lparr>amount = a, decimalPlaces = n\<rparr>"

text \<open>
  The loop of \<open>valueOf\<close>:
  \<^verbatim>\<open>for(var i = 0; i < this.decimalPlaces; i++) { scale *= 10; }\<close>
\<close>

function scale_loop :: "int \<Rightarrow> int \<Rightarrow> number \<Rightarrow> number" where
  "scale_loop places i scale =
     (if i < places then scale_loop places (i + 1) (js_mul scale (Fin 10)) else scale)"
  by pat_completeness auto
termination
  by (relation "measure (\<lambda>(places, i, scale). nat (places - i))") auto

declare scale_loop.simps [simp del]

text \<open>\<^verbatim>\<open>return Math.floor(this.amount * scale) / scale;\<close>\<close>

definition valueOf :: "decimal \<Rightarrow> number" where
  "valueOf this =
     (let scale = scale_loop (decimalPlaces this) 0 (Fin 1)
      in js_div (Math_floor (js_mul (amount this) scale)) scale)"

section \<open>Number.prototype.toFixed\<close>

text \<open>
  \<open>toFixed\<close> is the language's, not the program's; the model follows the algorithm
  of ECMAScript (15.7.4.5). The program calls it with the literals 2 and 3 only.
\<close>

definition digit_char :: "nat \<Rightarrow> char" where
  "digit_char d = ''0123456789'' ! d"

fun digits_of :: "nat \<Rightarrow> string" where
  "digits_of n =
     (if n < 10 then [digit_char n] else digits_of (n div 10) @ [digit_char (n mod 10)])"

declare digits_of.simps [simp del]

text \<open>
  Below \<open>10^21\<close>: the integer \<open>n\<close> nearest to \<open>x * 10^f\<close> (the larger of two), its
  digits, zeros in front up to \<open>f + 1\<close> digits, and a point before the last \<open>f\<close>.
\<close>

definition fixed_notation :: "real \<Rightarrow> nat \<Rightarrow> string" where
  "fixed_notation x f =
     (let n = nat \<lfloor>x * 10 ^ f + 1 / 2\<rfloor>;
          m = digits_of n
      in if f = 0 then m
         else let m = (if length m \<le> f then replicate (f + 1 - length m) (CHR ''0'') @ m
                       else m);
                  k = length m
              in take (k - f) m @ ''.'' @ drop (k - f) m)"

text \<open>
  From \<open>10^21\<close> on, \<open>toFixed\<close> answers with ToString (ECMAScript 9.8.1): the fewest
  digits \<open>s\<close> such that \<open>s * 10^(n - k)\<close> is read back as the same double, the one
  nearest to the value when there are two, then the exponent. The search tries
  \<open>k = 1, 2, ...\<close> digits with the candidates below and above the value; seventeen
  digits identify every double.
\<close>

function shortest_digits :: "real \<Rightarrow> nat \<Rightarrow> nat \<Rightarrow> nat \<Rightarrow> nat" where
  "shortest_digits x N n k =
     (let p = 10 ^ (n - k);
          lo = N div p;
          hi = lo + 1;
          ok_lo = (round_double (real (lo * p)) = Fin x);
          ok_hi = (hi < 10 ^ k \<and> round_double (real (hi * p)) = Fin x)
      in if ok_lo \<and> ok_hi then
           (if x - real (lo * p) < real (hi * p) - x then lo
            else if real (hi * p) - x < x - real (lo * p) then hi
            else if even lo then lo else hi)
         else if ok_lo then lo
         else if ok_hi then hi
         else if k < 17 \<and> k < n then shortest_digits x N n (k + 1)
         else N)"
  by pat_completeness auto
termination
  by (relation "measure (\<lambda>(x, N, n, k). 17 - k)") auto

declare shortest_digits.simps [simp del]

definition exponent_notation :: "real \<Rightarrow> string" where
  "exponent_notation x =
     (let N = nat \<lfloor>x\<rfloor>;
          n = length (digits_of N)
      in if round_double (10 ^ n) = Fin x then ''1e+'' @ digits_of n
         else let ds = digits_of (shortest_digits x N n 1);
                  s = rev (dropWhile (\<lambda>c. c = CHR ''0'') (rev ds))
              in (if length s = 1 then s else hd s # CHR ''.'' # tl s)
                 @ ''e+'' @ digits_of (n - 1))"

fun toFixed :: "number \<Rightarrow> nat \<Rightarrow> string" where
  "toFixed NaN f = ''NaN''"
| "toFixed PosInf f = ''Infinity''"
| "toFixed NegInf f = ''-Infinity''"
| "toFixed NegZero f = fixed_notation 0 f"
| "toFixed (Fin x) f =
     (if x < 0 then ''-'' else [])
     @ (if 10 ^ 21 \<le> \<bar>x\<bar> then exponent_notation \<bar>x\<bar> else fixed_notation \<bar>x\<bar> f)"

section \<open>Formatting a Decimal\<close>

text \<open>
  \<^verbatim>\<open>return unitPrefix + Number(this).toFixed(2);\<close> and
  \<^verbatim>\<open>return Number(this).toFixed(3) + unitSuffix;\<close>, where \<open>Number(this)\<close> is
  \<open>this.valueOf()\<close>.
\<close>

definition toCurrency :: "decimal \<Rightarrow> string \<Rightarrow> string" where
  "toCurrency this unitPrefix = unitPrefix @ toFixed (valueOf this) 2"

definition toDistance :: "decimal \<Rightarrow> string \<Rightarrow> string" where
  "toDistance this unitSuffix = toFixed (valueOf this) 3 @ unitSuffix"

section \<open>The mapping service and the output field\<close>

text \<open>
  What the Google Maps services hand to the callbacks of the program: a status and a
  response. An index or a property read on \<open>undefined\<close> raises TypeError.
\<close>

datatype js_error = TypeError

datatype directions_status =
  DirectionsOK | DirectionsInvalidRequest | DirectionsMaxWaypointsExceeded
  | DirectionsNotFound | DirectionsOverQueryLimit | DirectionsRequestDenied
  | DirectionsUnknownError | DirectionsZeroResults

datatype geocoder_status =
  GeocoderOK | GeocoderError | GeocoderInvalidRequest | GeocoderOverQueryLimit
  | GeocoderRequestDenied | GeocoderUnknownError | GeocoderZeroResults

record distance_info =
  dist_text :: string
  dist_value :: number

record leg =
  distance :: distance_info
  duration :: distance_info
  start_address :: string
  end_address :: string

record route =
  legs :: "leg list"
  summary :: string

record directions_response =
  routes :: "route list"

record latlng =
  lat :: number
  lng :: number

record geocoder_result =
  location :: latlng
  formatted_address :: string

text \<open>
  A directions service answers a request for an origin and a destination; a geocoder
  answers a request for an address, which is \<open>None\<close> when the program hands it
  \<open>undefined\<close>.
\<close>

type_synonym directions_service =
  "string \<Rightarrow> string \<Rightarrow> directions_response \<times> directions_status"

type_synonym geocoder = "string option \<Rightarrow> geocoder_result list \<times> geocoder_status"

text \<open>
  The calls that reach the user: \<open>showFare\<close> and \<open>showMessage\<close> of the output
  field, and the map drawn by \<open>showMap\<close> (its centre and its two markers), with the
  route line when the map's own directions request succeeds.
\<close>

datatype display_call = ShowFare string string | ShowMessage string string

datatype map_call = NewMap latlng latlng latlng | SetDirections directions_response

datatype effect = FareOutput display_call | MapOutput map_call

section \<open>The fare calculator\<close>

text \<open>
  The \<open>fare\<close> argument of \<open>FareCalculator\<close>, built by
  \<open>TaxiFareFinder.initialize\<close> from the three numbers that \<open>parseFloat\<close> reads in
  the configuration document.
\<close>

record fare =
  baseRate :: decimal
  distanceUnit :: decimal
  ratePerDistanceUnit :: decimal

definition initialize :: "number \<Rightarrow> number \<Rightarrow> number \<Rightarrow> fare" where
  "initialize fare_base_rate fare_distance_unit fare_rate_per_distance_unit =
     \<lparr>baseRate = Decimal fare_base_rate 2,
      distanceUnit = Decimal fare_distance_unit 3,
      ratePerDistanceUnit = Decimal fare_rate_per_distance_unit 2\<rparr>"

text \<open>The four variables of \<open>FareCalculator\<close>, undefined until a route was priced.\<close>

record fare_calculator =
  totalDistance :: "decimal option"
  distanceOverBase :: "decimal option"
  distanceFare :: "decimal option"
  totalFare :: "decimal option"

text \<open>\<^verbatim>\<open>response.routes[0].legs[0].distance.value\<close>\<close>

definition first_leg_distance :: "directions_response \<Rightarrow> js_error + number" where
  "first_leg_distance response =
     (case routes response of
        [] \<Rightarrow> Inl TypeError
      | r # _ \<Rightarrow> (case legs r of
                    [] \<Rightarrow> Inl TypeError
                  | l # _ \<Rightarrow> Inr (dist_value (distance l))))"

text \<open>\<^verbatim>\<open>Math.ceil(distanceOverBase / fare.distanceUnit)\<close>\<close>

definition tierCount :: "fare \<Rightarrow> decimal \<Rightarrow> number" where
  "tierCount fare dob = Math_ceil (js_div (valueOf dob) (valueOf (distanceUnit fare)))"

text \<open>
  The callback that \<open>FareCalculator.updateContent\<close> hands to
  \<open>directionsService.route\<close>. An operand that is a Decimal is read through
  \<open>valueOf\<close>.
\<close>

definition route_callback ::
  "fare \<Rightarrow> directions_response \<Rightarrow> directions_status \<Rightarrow> fare_calculator
     \<Rightarrow> js_error + fare_calculator \<times> display_call list" where
  "route_callback fare response status this =
     (if status = DirectionsOK then
        (case first_leg_distance response of
           Inl e \<Rightarrow> Inl e
         | Inr v \<Rightarrow>
             (let td = Decimal (js_div v (Fin 1000)) 3;
                  dob = Decimal (js_sub (valueOf td) (valueOf (distanceUnit fare))) 3;
                  df = Decimal (js_mul (valueOf (ratePerDistanceUnit fare))
                                  (tierCount fare dob)) 2;
                  tf = Decimal (js_add (valueOf (baseRate fare)) (valueOf df)) 2
              in Inr (\<lparr>totalDistance = Some td, distanceOverBase = Some dob,
                        distanceFare = Some df, totalFare = Some tf\<rparr>,
                      [ShowFare (toCurrency tf ''$'') (toDistance td '' km'')])))
      else Inr (this, []))"

definition FareCalculator_updateContent ::
  "directions_service \<Rightarrow> fare \<Rightarrow> string \<Rightarrow> string \<Rightarrow> fare_calculator
     \<Rightarrow> js_error + fare_calculator \<times> display_call list" where
  "FareCalculator_updateContent directionsService fare origin destination this =
     (case directionsService origin destination of
        (response, status) \<Rightarrow> route_callback fare response status this)"

section \<open>The map display\<close>

text \<open>A write to a JavaScript array: past the end it leaves holes.\<close>

definition array_set :: "'a option list \<Rightarrow> nat \<Rightarrow> 'a \<Rightarrow> 'a option list" where
  "array_set xs i v =
     (if i < length xs then xs[i := Some v]
      else xs @ replicate (i - length xs) None @ [Some v])"

definition array_get :: "'a option list \<Rightarrow> nat \<Rightarrow> 'a option" where
  "array_get xs i = (if i < length xs then xs ! i else None)"

record map_display =
  addresses :: "string option list"
  codedAddresses :: "latlng option list"

text \<open>
  \<open>showMap\<close> draws a new map with the markers and asks its own directions service
  for the route line.
\<close>

definition showMap ::
  "directions_response \<times> directions_status \<Rightarrow> latlng \<Rightarrow> latlng \<Rightarrow> latlng \<Rightarrow> effect list" where
  "showMap answer center origin destination =
     MapOutput (NewMap center origin destination)
     # (if snd answer = DirectionsOK then [MapOutput (SetDirections (fst answer))] else [])"

text \<open>
  \<open>codeAddresses(addresses, index, callback)\<close>, where the callback is
  \<open>codeAddresses\<close> itself.
\<close>

function codeAddresses ::
  "geocoder \<Rightarrow> directions_response \<times> directions_status \<Rightarrow> string \<Rightarrow> string
     \<Rightarrow> string option list \<Rightarrow> nat \<Rightarrow> map_display \<Rightarrow> js_error + map_display \<times> effect list" where
  "codeAddresses geocode answer errorMessage errorClass addrs index this =
     (if index < length addrs then
        (case geocode (addrs ! index) of
           (results, status) \<Rightarrow>
             if status = GeocoderOK then
               (case results of
                  [] \<Rightarrow> Inl TypeError
                | r # _ \<Rightarrow>
                    codeAddresses geocode answer errorMessage errorClass addrs (index + 1)
                      (this\<lparr>codedAddresses :=
                         array_set (codedAddresses this) index (location r)\<rparr>))
             else Inr (this, [FareOutput (ShowMessage errorMessage errorClass)]))
      else
        (case (array_get (codedAddresses this) 0, array_get (codedAddresses this) 1) of
           (Some origin, Some destination) \<Rightarrow>
             Inr (this,
               showMap answer
                 \<lparr>lat = js_div (js_add (lat origin) (lat destination)) (Fin 2),
                  lng = js_div (js_add (lng origin) (lng destination)) (Fin 2)\<rparr>
                 origin destination)
         | _ \<Rightarrow> Inl TypeError))"
  by pat_completeness auto
termination
  by (relation "measure (\<lambda>(g, a, m, c, addrs, index, this). length addrs - index)") auto

declare codeAddresses.simps [simp del]

text \<open>
  \<^verbatim>\<open>addresses[0] = originInput.getElement().val();\<close>
  \<^verbatim>\<open>addresses[1] = destinationInput.getElement().val();\<close>
  \<^verbatim>\<open>codeAddresses(addresses, 0, codeAddresses);\<close>
\<close>

definition MapDisplay_updateContent ::
  "geocoder \<Rightarrow> directions_service \<Rightarrow> string \<Rightarrow> string \<Rightarrow> string \<Rightarrow> string
     \<Rightarrow> map_display \<Rightarrow> js_error + map_display \<times> effect list" where
  "MapDisplay_updateContent geocode directionsService errorMessage errorClass
       origin destination this =
     (let addrs = array_set (array_set (addresses this) 0 origin) 1 destination
      in codeAddresses geocode (directionsService origin destination) errorMessage errorClass
           addrs 0 (this\<lparr>addresses := addrs\<rparr>))"

section \<open>A click on the button\<close>

text \<open>
  Both \<open>MapDisplay\<close> and \<open>FareCalculator\<close> bind their \<open>updateContent\<close> to the
  click. Each has its own directions service object and its own variables; they share
  the output field. The calls that one click sends to the output field are those of
  the map display's callbacks and those of the fare calculator's callback; the browser
  decides in which order the callbacks run, and nothing below depends on it.
\<close>

definition display_calls :: "effect list \<Rightarrow> display_call list" where
  "display_calls es =
     concat (map (\<lambda>e. case e of FareOutput c \<Rightarrow> [c] | MapOutput _ \<Rightarrow> []) es)"

definition map_side_calls ::
  "geocoder \<Rightarrow> directions_service \<Rightarrow> string \<Rightarrow> string \<Rightarrow> string \<Rightarrow> string
     \<Rightarrow> map_display \<Rightarrow> display_call list" where
  "map_side_calls geocode mapDirections errorMessage errorClass origin destination m =
     (case MapDisplay_updateContent geocode mapDirections errorMessage errorClass
             origin destination m of
        Inl e \<Rightarrow> []
      | Inr (m', es) \<Rightarrow> display_calls es)"

definition fare_side_calls ::
  "directions_service \<Rightarrow> fare \<Rightarrow> string \<Rightarrow> string \<Rightarrow> fare_calculator \<Rightarrow> display_call list" where
  "fare_side_calls fareDirections fare origin destination c =
     (case FareCalculator_updateContent fareDirections fare origin destination c of
        Inl e \<Rightarrow> []
      | Inr (c', calls) \<Rightarrow> calls)"

definition click_calls ::
  "geocoder \<Rightarrow> directions_service \<Rightarrow> directions_service \<Rightarrow> string \<Rightarrow> string \<Rightarrow> fare
     \<Rightarrow> string \<Rightarrow> string \<Rightarrow> map_display \<Rightarrow> fare_calculator \<Rightarrow> display_call list" where
  "click_calls geocode mapDirections fareDirections errorMessage errorClass fare
       origin destination m c =
     map_side_calls geocode mapDirections errorMessage errorClass origin destination m
     @ fare_side_calls fareDirections fare origin destination c"

section \<open>The specification's truncation\<close>

text \<open>
  The specification's words: \<open>truncate(x, n) = floor(x * 10^n) / 10^n\<close>, read on exact
  real numbers.
\<close>

definition spec_truncate :: "real \<Rightarrow> nat \<Rightarrow> real" where
  "spec_truncate x n = of_int \<lfloor>x * 10 ^ n\<rfloor> / 10 ^ n"






section \<open>The specification's formulas in double arithmetic\<close>

text \<open>
  The same formulas with every product, quotient, sum and difference rounded to the
  nearest double, as JavaScript computes them. \<open>10^n\<close> is a double up to \<open>n = 22\<close>.
\<close>

definition double_truncate :: "number \<Rightarrow> nat \<Rightarrow> number" where
  "double_truncate x n = js_div (Math_floor (js_mul x (Fin (10 ^ n)))) (Fin (10 ^ n))"






section \<open>Inputs for the examples\<close>

text \<open>
  A response with one route of one leg; a response with two routes, the first of two
  legs; a fare calculator that has priced no route yet; the configuration of the
  specification's examples.
\<close>

definition one_leg_response :: "number \<Rightarrow> directions_response" where
  "one_leg_response v =
     \<lparr>routes = [\<lparr>legs = [\<lparr>distance = \<lparr>dist_text = [], dist_value = v\<rparr>,
                          duration = \<lparr>dist_text = [], dist_value = Fin 0\<rparr>,
                          start_address = [], end_address = []\<rparr>],
                 summary = []\<rparr>]\<rparr>"

definition two_route_response :: "number \<Rightarrow> directions_response" where
  "two_route_response v =
     \<lparr>routes = [\<lparr>legs = [\<lparr>distance = \<lparr>dist_text = ''first'', dist_value = v\<rparr>,
                          duration = \<lparr>dist_text = ''4 mins'', dist_value = Fin 240\<rparr>,
                          start_address = ''Union Station'', end_address = ''CN Tower''\<rparr>,
                         \<lparr>distance = \<lparr>dist_text = ''second'', dist_value = Fin 99999\<rparr>,
                          duration = \<lparr>dist_text = ''2 hours'', dist_value = Fin 7200\<rparr>,
                          start_address = ''CN Tower'', end_address = ''Airport''\<rparr>],
                 summary = ''Front St W''\<rparr>,
                \<lparr>legs = [\<lparr>distance = \<lparr>dist_text = ''other'', dist_value = Fin 5\<rparr>,
                          duration = \<lparr>dist_text = ''1 min'', dist_value = Fin 60\<rparr>,
                          start_address = ''Union Station'', end_address = ''CN Tower''\<rparr>],
                 summary = ''Bay St''\<rparr>]\<rparr>"

definition no_route_priced :: fare_calculator where
  "no_route_priced =
     \<lparr>totalDistance = None, distanceOverBase = None, distanceFare = None, totalFare = None\<rparr>"

definition toronto_fare :: fare where
  "toronto_fare = initialize (Fin 4.25) (Fin 0.5) (Fin 1.75)"

text \<open>A directions service that gives the same answer to every request.\<close>

definition fixed_directions ::
  "directions_response \<times> directions_status \<Rightarrow> directions_service" where
  "fixed_directions answer origin destination = answer"

text \<open>
  A geocoder that finds the addresses of a list and no other; the answer of a directions
  service that finds no route; a map display before the first click.
\<close>

definition geocoder_finds :: "string list \<Rightarrow> geocoder" where
  "geocoder_finds known address =
     (case address of
        None \<Rightarrow> ([], GeocoderInvalidRequest)
      | Some a \<Rightarrow>
          if a \<in> set known
          then ([\<lparr>location = \<lparr>lat = Fin 43.5, lng = Fin (- 79.5)\<rparr>,
                  formatted_address = a\<rparr>], GeocoderOK)
          else ([], GeocoderZeroResults))"

definition no_route :: "directions_response \<times> directions_status" where
  "no_route = (\<lparr>routes = []\<rparr>, DirectionsZeroResults)"

definition map_not_clicked :: map_display where
  "map_not_clicked = \<lparr>addresses = [], codedAddresses = []\<rparr>"

section \<open>Evaluating the rounding\<close>

lemma binade_up_step:
  "e < 1023 \<Longrightarrow> 2 powi (e + 1) \<le> a \<Longrightarrow> binade_up a e = binade_up a (e + 1)"
  by (subst binade_up.simps) simp

lemma binade_up_stop: "\<not> 2 powi (e + 1) \<le> a \<Longrightarrow> binade_up a e = e"
  by (subst binade_up.simps) simp

lemma binade_up_top: "binade_up a 1023 = 1023"
  by (subst binade_up.simps) simp

lemma binade_down_step:
  "- 1022 < e \<Longrightarrow> a < 2 powi e \<Longrightarrow> binade_down a e = binade_down a (e - 1)"
  by (subst binade_down.simps) simp

lemma binade_down_stop: "\<not> a < 2 powi e \<Longrightarrow> binade_down a e = e"
  by (subst binade_down.simps) simp

lemma binade_down_bottom: "binade_down a (- 1022) = - 1022"
  by (subst binade_down.simps) simp

lemmas double_eval =
  round_double_def nearest_multiple_def quantum_def binade_def
  binade_up_step binade_up_stop binade_up_top
  binade_down_step binade_down_stop binade_down_bottom round_nearest_even_def Let_def

lemmas arith_eval =
  js_add_def js_sub_def js_mul_def js_div_def signed_zero_def signed_infinity_def

section \<open>The binade\<close>





section \<open>The nearest integer\<close>


lemma round_nearest_even_ceiling: "round_nearest_even y \<le> \<lfloor>y\<rfloor> + 1"
  by (simp add: round_nearest_even_def Let_def)

lemma round_nearest_even_int: "round_nearest_even (of_int k) = k"
  by (simp add: round_nearest_even_def Let_def)

lemma round_nearest_even_le:
  assumes "y \<le> of_int M"
  shows "round_nearest_even y \<le> M"
proof (cases "y = of_int M")
  case True
  then show ?thesis
    by (simp add: round_nearest_even_int)
next
  case False
  with assms have "y < of_int M"
    by simp
  then have "\<lfloor>y\<rfloor> < M"
    by (simp add: floor_less_iff)
  with round_nearest_even_ceiling [of y] show ?thesis
    by linarith
qed


lemma round_nearest_even_minus: "round_nearest_even (- y) = - round_nearest_even y"
proof (cases "y = of_int \<lfloor>y\<rfloor>")
  case True
  then obtain k where "y = of_int k"
    by blast
  then have "- y = of_int (- k)"
    by simp
  then show ?thesis
    unfolding \<open>y = of_int k\<close> by (simp only: round_nearest_even_int of_int_minus [symmetric])
next
  case False
  then have fl: "\<lfloor>- y\<rfloor> = - \<lfloor>y\<rfloor> - 1"
    by (simp add: floor_minus ceiling_altdef)
  define f where "f = \<lfloor>y\<rfloor>"
  define r where "r = y - of_int f"
  have r: "0 < r" "r < 1"
    using False by (simp_all add: r_def f_def less_le) linarith
  have r': "- y - of_int (- f - 1) = 1 - r"
    by (simp add: r_def)
  have ev: "even (- f - 1) \<longleftrightarrow> odd f"
    by simp
  show ?thesis
    unfolding round_nearest_even_def Let_def fl f_def [symmetric] r' r_def [symmetric] ev
    by auto
qed

section \<open>Rounding is monotone across doubles\<close>

lemma quantum_pos: "0 < quantum x"
  by (simp add: quantum_def zero_less_power_int)

lemma quantum_minus: "quantum (- x) = quantum x"
  by (simp add: quantum_def)

lemma nearest_multiple_minus: "nearest_multiple (- x) = - nearest_multiple x"
  by (simp add: nearest_multiple_def quantum_minus round_nearest_even_minus)

lemma nearest_multiple_nonpos:
  assumes "x \<le> 0"
  shows "nearest_multiple x \<le> 0"
proof -
  from assms quantum_pos [of x] have "x / quantum x \<le> of_int 0"
    by (simp add: divide_le_0_iff)
  then have "round_nearest_even (x / quantum x) \<le> 0"
    by (rule round_nearest_even_le)
  then show ?thesis
    using quantum_pos [of x] by (simp add: nearest_multiple_def mult_le_0_iff)
qed

lemma nearest_multiple_nonneg:
  assumes "0 \<le> x"
  shows "0 \<le> nearest_multiple x"
  using nearest_multiple_nonpos [of "- x"] assms by (simp add: nearest_multiple_minus)











section \<open>Bounds through the operations\<close>



lemma at_most_mono: "at_most x c \<Longrightarrow> c \<le> d \<Longrightarrow> at_most x d"
  by (cases x) (simp_all add: at_most_def)








lemma Math_floor_integer: "Math_floor x = Fin z \<Longrightarrow> \<exists>k. z = of_int k"
  by (cases x) auto

lemma Math_ceil_integer: "Math_ceil x = Fin z \<Longrightarrow> \<exists>k. z = of_int k"
  by (cases x) (auto split: if_splits)

section \<open>The scale of a Decimal\<close>

lemma js_mul_ten:
  assumes "k < 22"
  shows "js_mul (Fin (10 ^ k)) (Fin 10) = Fin (10 ^ Suc k)"
proof -
  from assms consider "k = 0" | "k = 1" | "k = 2" | "k = 3" | "k = 4" | "k = 5" | "k = 6"
    | "k = 7" | "k = 8" | "k = 9" | "k = 10" | "k = 11" | "k = 12" | "k = 13" | "k = 14"
    | "k = 15" | "k = 16" | "k = 17" | "k = 18" | "k = 19" | "k = 20" | "k = 21"
    by (auto simp add: less_Suc_eq eval_nat_numeral)
  then show ?thesis
    by cases (simp_all add: js_mul_def double_eval)
qed

lemma scale_loop_exact:
  assumes "0 \<le> i" and "i \<le> places" and "places \<le> 22"
  shows "scale_loop places i (Fin (10 ^ nat i)) = Fin (10 ^ nat places)"
  using assms
proof (induction places i "Fin (10 ^ nat i)" rule: scale_loop.induct)
  case (1 places i)
  show ?case
  proof (cases "i < places")
    case True
    with "1.prems" have k: "nat i < 22" and suc: "nat (i + 1) = Suc (nat i)"
      by simp_all
    have "scale_loop places i (Fin (10 ^ nat i))
        = scale_loop places (i + 1) (js_mul (Fin (10 ^ nat i)) (Fin 10))"
      using True by (subst scale_loop.simps) simp
    also have "\<dots> = scale_loop places (i + 1) (Fin (10 ^ nat (i + 1)))"
      by (simp only: js_mul_ten [OF k] suc)
    also have "\<dots> = Fin (10 ^ nat places)"
      using True "1.prems" by (intro "1.hyps") (simp_all add: js_mul_ten [OF k] suc)
    finally show ?thesis .
  next
    case False
    with "1.prems" have "i = places"
      by simp
    then show ?thesis
      by (subst scale_loop.simps) simp
  qed
qed

lemma valueOf_scale:
  assumes "0 \<le> n" and "n \<le> 22"
  shows "valueOf (Decimal a n)
       = js_div (Math_floor (js_mul a (Fin (10 ^ nat n)))) (Fin (10 ^ nat n))"
  using scale_loop_exact [of 0 n] assms by (simp add: valueOf_def Decimal_def Let_def)

lemma valueOf_2:
  "valueOf (Decimal a 2) = js_div (Math_floor (js_mul a (Fin 100))) (Fin 100)"
  using valueOf_scale [of 2 a] by simp

lemma valueOf_3:
  "valueOf (Decimal a 3) = js_div (Math_floor (js_mul a (Fin 1000))) (Fin 1000)"
  using valueOf_scale [of 3 a] by simp

lemma valueOf_0: "valueOf (Decimal a 0) = js_div (Math_floor (js_mul a (Fin 1))) (Fin 1)"
  using valueOf_scale [of 0 a] by simp

section \<open>Reading a Decimal\<close>

lemmas number_eval = arith_eval double_eval

lemma spec_truncate_le: "spec_truncate x n \<le> x"
proof -
  have "of_int \<lfloor>x * 10 ^ n\<rfloor> \<le> x * 10 ^ n"
    by (rule of_int_floor_le)
  then show ?thesis
    by (simp add: spec_truncate_def divide_le_eq)
qed




section \<open>The callback, step by step\<close>

lemma digits_of_small: "n < 10 \<Longrightarrow> digits_of n = [digit_char n]"
  by (subst digits_of.simps) simp

lemma digits_of_large:
  "10 \<le> n \<Longrightarrow> digits_of n = digits_of (n div 10) @ [digit_char (n mod 10)]"
  by (subst digits_of.simps) simp

lemma digits_of_nonempty: "digits_of n \<noteq> []"
  by (subst digits_of.simps) simp

lemma replicate_small:
  "replicate 2 x = [x, x]"
  "replicate 3 x = [x, x, x]"
  "replicate 4 x = [x, x, x, x]"
  by (simp_all add: numeral_2_eq_2 numeral_3_eq_3 eval_nat_numeral)

lemmas format_eval =
  fixed_notation_def digits_of_small digits_of_large digit_char_def replicate_small


lemma first_leg_one_leg: "first_leg_distance (one_leg_response v) = Inr v"
  by (simp add: first_leg_distance_def one_leg_response_def)

lemma route_callback_priced:
  assumes "first_leg_distance response = Inr v"
  shows "route_callback fare response DirectionsOK c =
     (let td = Decimal (js_div v (Fin 1000)) 3;
          dob = Decimal (js_sub (valueOf td) (valueOf (distanceUnit fare))) 3;
          df = Decimal (js_mul (valueOf (ratePerDistanceUnit fare)) (tierCount fare dob)) 2;
          tf = Decimal (js_add (valueOf (baseRate fare)) (valueOf df)) 2
      in Inr (\<lparr>totalDistance = Some td, distanceOverBase = Some dob,
                distanceFare = Some df, totalFare = Some tf\<rparr>,
              [ShowFare (toCurrency tf ''$'') (toDistance td '' km'')]))"
  using assms by (simp add: route_callback_def)

text \<open>
  The callback with every intermediate result named: the amounts stored are \<open>a1\<close> to
  \<open>a4\<close>, the values read from them \<open>v1\<close> to \<open>v4\<close>, the number of tiers \<open>t\<close>.
\<close>

lemma route_callback_steps:
  assumes "first_leg_distance response = Inr v"
    and "valueOf (baseRate fare) = b"
    and "valueOf (distanceUnit fare) = u"
    and "valueOf (ratePerDistanceUnit fare) = r"
    and "js_div v (Fin 1000) = a1"
    and "valueOf (Decimal a1 3) = v1"
    and "js_sub v1 u = a2"
    and "valueOf (Decimal a2 3) = v2"
    and "Math_ceil (js_div v2 u) = t"
    and "js_mul r t = a3"
    and "valueOf (Decimal a3 2) = v3"
    and "js_add b v3 = a4"
    and "valueOf (Decimal a4 2) = v4"
    and "''$'' @ toFixed v4 2 = fareText"
    and "toFixed v1 3 @ '' km'' = distanceText"
  shows "route_callback fare response DirectionsOK c =
     Inr (\<lparr>totalDistance = Some (Decimal a1 3), distanceOverBase = Some (Decimal a2 3),
           distanceFare = Some (Decimal a3 2), totalFare = Some (Decimal a4 2)\<rparr>,
          [ShowFare fareText distanceText])"
  unfolding route_callback_priced [OF assms(1)] Let_def tierCount_def toCurrency_def
    toDistance_def
  using assms(2-) by simp

lemma tierCount_steps:
  assumes "valueOf (distanceUnit fare) = u"
    and "valueOf dob = v2"
    and "Math_ceil (js_div v2 u) = t"
  shows "tierCount fare dob = t"
  using assms by (simp add: tierCount_def)


lemma valueOf_initialize:
  "valueOf (baseRate (initialize b u r)) = double_truncate b 2"
  "valueOf (distanceUnit (initialize b u r)) = double_truncate u 3"
  "valueOf (ratePerDistanceUnit (initialize b u r)) = double_truncate r 2"
  by (simp_all add: initialize_def valueOf_2 valueOf_3 double_truncate_def)

lemma valueOf_toronto:
  "valueOf (baseRate toronto_fare) = Fin 4.25"
  "valueOf (distanceUnit toronto_fare) = Fin 0.5"
  "valueOf (ratePerDistanceUnit toronto_fare) = Fin 1.75"
  by (simp_all add: toronto_fare_def valueOf_initialize double_truncate_def number_eval)


section \<open>The configuration of the examples at some distances\<close>

text \<open>The doubles nearest to some decimal fractions.\<close>

lemma doubles:
  "round_double 1.001 = Fin (2254051613498933 / 2 ^ 51)"
  "round_double 1.3 = Fin (5854679515581645 / 2 ^ 52)"
  "round_double 0.8 = Fin (3602879701896397 / 2 ^ 52)"
  "round_double 0.2 = Fin (3602879701896397 / 2 ^ 54)"
  "round_double (- 0.3) = Fin (- (5404319552844595 / 2 ^ 54))"
  "round_double 7.234 = Fin (4072379963049771 / 2 ^ 49)"
  "round_double 6.734 = Fin (3790904986339115 / 2 ^ 49)"
  by (simp_all add: double_eval)

lemma toronto_500:
  "js_div (Fin 500) (Fin 1000) = Fin 0.5"
  "valueOf (Decimal (Fin 0.5) 3) = Fin 0.5"
  "js_sub (Fin 0.5) (Fin 0.5) = Fin 0"
  "valueOf (Decimal (Fin 0) 3) = Fin 0"
  "Math_ceil (js_div (Fin 0) (Fin 0.5)) = Fin 0"
  "js_mul (Fin 1.75) (Fin 0) = Fin 0"
  "valueOf (Decimal (Fin 0) 2) = Fin 0"
  "js_add (Fin 4.25) (Fin 0) = Fin 4.25"
  "valueOf (Decimal (Fin 4.25) 2) = Fin 4.25"
  "''$'' @ toFixed (Fin 4.25) 2 = ''$4.25''"
  "toFixed (Fin 0.5) 3 @ '' km'' = ''0.500 km''"
  by (simp_all add: valueOf_2 valueOf_3 number_eval format_eval)

lemma callback_toronto_500:
  "route_callback toronto_fare (one_leg_response (Fin 500)) DirectionsOK c =
     Inr (\<lparr>totalDistance = Some (Decimal (Fin 0.5) 3),
           distanceOverBase = Some (Decimal (Fin 0) 3),
           distanceFare = Some (Decimal (Fin 0) 2),
           totalFare = Some (Decimal (Fin 4.25) 2)\<rparr>,
          [ShowFare ''$4.25'' ''0.500 km''])"
  by (rule route_callback_steps [OF first_leg_one_leg valueOf_toronto toronto_500])

lemma toronto_1300:
  "js_div (Fin 1300) (Fin 1000) = Fin (5854679515581645 / 2 ^ 52)"
  "valueOf (Decimal (Fin (5854679515581645 / 2 ^ 52)) 3) = Fin (5854679515581645 / 2 ^ 52)"
  "js_sub (Fin (5854679515581645 / 2 ^ 52)) (Fin 0.5) = Fin (3602879701896397 / 2 ^ 52)"
  "valueOf (Decimal (Fin (3602879701896397 / 2 ^ 52)) 3) = Fin (3602879701896397 / 2 ^ 52)"
  "Math_ceil (js_div (Fin (3602879701896397 / 2 ^ 52)) (Fin 0.5)) = Fin 2"
  "js_mul (Fin 1.75) (Fin 2) = Fin 3.5"
  "valueOf (Decimal (Fin 3.5) 2) = Fin 3.5"
  "js_add (Fin 4.25) (Fin 3.5) = Fin 7.75"
  "valueOf (Decimal (Fin 7.75) 2) = Fin 7.75"
  "''$'' @ toFixed (Fin 7.75) 2 = ''$7.75''"
  "toFixed (Fin (5854679515581645 / 2 ^ 52)) 3 @ '' km'' = ''1.300 km''"
  by (simp_all add: valueOf_2 valueOf_3 number_eval format_eval)

lemma callback_toronto_1300:
  "route_callback toronto_fare (one_leg_response (Fin 1300)) DirectionsOK c =
     Inr (\<lparr>totalDistance = Some (Decimal (Fin (5854679515581645 / 2 ^ 52)) 3),
           distanceOverBase = Some (Decimal (Fin (3602879701896397 / 2 ^ 52)) 3),
           distanceFare = Some (Decimal (Fin 3.5) 2),
           totalFare = Some (Decimal (Fin 7.75) 2)\<rparr>,
          [ShowFare ''$7.75'' ''1.300 km''])"
  by (rule route_callback_steps [OF first_leg_one_leg valueOf_toronto toronto_1300])









section \<open>The fare formula\<close>




text \<open>
  Claim C7. With base rate 4.25, distance unit 0.5 and rate 1.75 per unit, a distance of
  0.5 km gives \<open>distanceOverBase = 0\<close>, \<open>tierCount = 0\<close>, \<open>distanceFare = 0.00\<close> and
  \<open>totalFare = 4.25\<close>; a distance of 1.3 km gives \<open>distanceOverBase = 0.8\<close>,
  \<open>tierCount = 2\<close>, \<open>distanceFare = 3.50\<close> and \<open>totalFare = 7.75\<close>, where 1.3 and 0.8
  are the doubles nearest to them.
\<close>

theorem fare_examples:
  "route_callback toronto_fare (one_leg_response (Fin 500)) DirectionsOK c =
     Inr (\<lparr>totalDistance = Some (Decimal (Fin 0.5) 3),
           distanceOverBase = Some (Decimal (Fin 0) 3),
           distanceFare = Some (Decimal (Fin 0) 2),
           totalFare = Some (Decimal (Fin 4.25) 2)\<rparr>,
          [ShowFare ''$4.25'' ''0.500 km''])
   \<and> valueOf (Decimal (Fin 0.5) 3) = Fin 0.5
   \<and> valueOf (Decimal (Fin 0) 3) = Fin 0
   \<and> tierCount toronto_fare (Decimal (Fin 0) 3) = Fin 0
   \<and> valueOf (Decimal (Fin 0) 2) = Fin 0
   \<and> valueOf (Decimal (Fin 4.25) 2) = Fin 4.25
   \<and> route_callback toronto_fare (one_leg_response (Fin 1300)) DirectionsOK c =
     Inr (\<lparr>totalDistance = Some (Decimal (round_double 1.3) 3),
           distanceOverBase = Some (Decimal (round_double 0.8) 3),
           distanceFare = Some (Decimal (Fin 3.5) 2),
           totalFare = Some (Decimal (Fin 7.75) 2)\<rparr>,
          [ShowFare ''$7.75'' ''1.300 km''])
   \<and> valueOf (Decimal (round_double 1.3) 3) = round_double 1.3
   \<and> valueOf (Decimal (round_double 0.8) 3) = round_double 0.8
   \<and> tierCount toronto_fare (Decimal (round_double 0.8) 3) = Fin 2
   \<and> valueOf (Decimal (Fin 3.5) 2) = Fin 3.5
   \<and> valueOf (Decimal (Fin 7.75) 2) = Fin 7.75"
proof -
  have a: "route_callback toronto_fare (one_leg_response (Fin 500)) DirectionsOK c =
     Inr (\<lparr>totalDistance = Some (Decimal (Fin 0.5) 3),
           distanceOverBase = Some (Decimal (Fin 0) 3),
           distanceFare = Some (Decimal (Fin 0) 2),
           totalFare = Some (Decimal (Fin 4.25) 2)\<rparr>,
          [ShowFare ''$4.25'' ''0.500 km''])"
    by (rule callback_toronto_500)
  have b: "route_callback toronto_fare (one_leg_response (Fin 1300)) DirectionsOK c =
     Inr (\<lparr>totalDistance = Some (Decimal (round_double 1.3) 3),
           distanceOverBase = Some (Decimal (round_double 0.8) 3),
           distanceFare = Some (Decimal (Fin 3.5) 2),
           totalFare = Some (Decimal (Fin 7.75) 2)\<rparr>,
          [ShowFare ''$7.75'' ''1.300 km''])"
    unfolding doubles by (rule callback_toronto_1300)
  have v: "valueOf (Decimal (Fin 0.5) 3) = Fin 0.5" "valueOf (Decimal (Fin 0) 3) = Fin 0"
    "valueOf (Decimal (Fin 0) 2) = Fin 0" "valueOf (Decimal (Fin 4.25) 2) = Fin 4.25"
    by (rule toronto_500)+
  have w: "valueOf (Decimal (round_double 1.3) 3) = round_double 1.3"
    "valueOf (Decimal (round_double 0.8) 3) = round_double 0.8"
    "valueOf (Decimal (Fin 3.5) 2) = Fin 3.5" "valueOf (Decimal (Fin 7.75) 2) = Fin 7.75"
    unfolding doubles by (rule toronto_1300)+
  have t: "tierCount toronto_fare (Decimal (Fin 0) 3) = Fin 0"
    "tierCount toronto_fare (Decimal (round_double 0.8) 3) = Fin 2"
    unfolding doubles
    by (rule tierCount_steps [OF valueOf_toronto(2) toronto_500(4) toronto_500(5)],
        rule tierCount_steps [OF valueOf_toronto(2) toronto_1300(4) toronto_1300(5)])
  from a b v w t show ?thesis
    by simp
qed

section \<open>The configuration\<close>












section \<open>Distances below the base tier\<close>












section \<open>One leg, one answer\<close>

text \<open>
  Claim C8. Two successful responses with the same \<open>routes[0].legs[0].distance.value\<close>
  give the same state and the same fare and distance output, whatever their other
  routes, legs and fields, and whatever the calculator held before.
\<close>

theorem first_leg_only:
  assumes "first_leg_distance response1 = Inr v"
    and "first_leg_distance response2 = Inr v"
  shows "route_callback fare response1 DirectionsOK c1
       = route_callback fare response2 DirectionsOK c2"
  using assms by (simp add: route_callback_def)

theorem first_leg_only_witness:
  "first_leg_distance (one_leg_response (Fin 1300)) = Inr (Fin 1300)
   \<and> first_leg_distance (two_route_response (Fin 1300)) = Inr (Fin 1300)
   \<and> one_leg_response (Fin 1300) \<noteq> two_route_response (Fin 1300)
   \<and> route_callback toronto_fare (two_route_response (Fin 1300)) DirectionsOK no_route_priced
       = Inr (\<lparr>totalDistance = Some (Decimal (round_double 1.3) 3),
               distanceOverBase = Some (Decimal (round_double 0.8) 3),
               distanceFare = Some (Decimal (Fin 3.5) 2),
               totalFare = Some (Decimal (Fin 7.75) 2)\<rparr>,
              [ShowFare ''$7.75'' ''1.300 km''])"
proof -
  have one: "first_leg_distance (one_leg_response (Fin 1300)) = Inr (Fin 1300)"
    by (rule first_leg_one_leg)
  have two: "first_leg_distance (two_route_response (Fin 1300)) = Inr (Fin 1300)"
    by (simp add: first_leg_distance_def two_route_response_def)
  have differ: "one_leg_response (Fin 1300) \<noteq> two_route_response (Fin 1300)"
    by (simp add: one_leg_response_def two_route_response_def)
  have "route_callback toronto_fare (one_leg_response (Fin 1300)) DirectionsOK no_route_priced
       = Inr (\<lparr>totalDistance = Some (Decimal (round_double 1.3) 3),
               distanceOverBase = Some (Decimal (round_double 0.8) 3),
               distanceFare = Some (Decimal (Fin 3.5) 2),
               totalFare = Some (Decimal (Fin 7.75) 2)\<rparr>,
              [ShowFare ''$7.75'' ''1.300 km''])"
    unfolding doubles by (rule callback_toronto_1300)
  with first_leg_only [OF two one, of toronto_fare no_route_priced no_route_priced]
  show ?thesis
    using one two differ by simp
qed

text \<open>
  Claim C10. The fare pipeline is a function of the service's answer and the
  configuration: what the calculator kept from earlier requests changes neither the
  output nor the error, and a second run on the same answer ends in the same state with
  the same output.
\<close>

theorem fare_pipeline_deterministic:
  "map_sum id snd (FareCalculator_updateContent directionsService fare origin destination c1)
     = map_sum id snd
         (FareCalculator_updateContent directionsService fare origin destination c2)
   \<and> fare_side_calls directionsService fare origin destination c1
     = fare_side_calls directionsService fare origin destination c2
   \<and> (FareCalculator_updateContent directionsService fare origin destination c1
        = Inr (c', calls)
      \<longrightarrow> FareCalculator_updateContent directionsService fare origin destination c'
          = Inr (c', calls))"
  by (auto simp add: fare_side_calls_def FareCalculator_updateContent_def route_callback_def
      Let_def split: prod.splits sum.splits if_splits)

theorem fare_pipeline_deterministic_witness:
  "FareCalculator_updateContent
       (fixed_directions (one_leg_response (Fin 1300), DirectionsOK)) toronto_fare
       ''Union Station'' ''CN Tower'' no_route_priced
     = Inr (\<lparr>totalDistance = Some (Decimal (round_double 1.3) 3),
             distanceOverBase = Some (Decimal (round_double 0.8) 3),
             distanceFare = Some (Decimal (Fin 3.5) 2),
             totalFare = Some (Decimal (Fin 7.75) 2)\<rparr>,
            [ShowFare ''$7.75'' ''1.300 km''])
   \<and> FareCalculator_updateContent
       (fixed_directions (one_leg_response (Fin 1300), DirectionsOK)) toronto_fare
       ''Union Station'' ''CN Tower''
       \<lparr>totalDistance = Some (Decimal (round_double 1.3) 3),
        distanceOverBase = Some (Decimal (round_double 0.8) 3),
        distanceFare = Some (Decimal (Fin 3.5) 2),
        totalFare = Some (Decimal (Fin 7.75) 2)\<rparr>
     = Inr (\<lparr>totalDistance = Some (Decimal (round_double 1.3) 3),
             distanceOverBase = Some (Decimal (round_double 0.8) 3),
             distanceFare = Some (Decimal (Fin 3.5) 2),
             totalFare = Some (Decimal (Fin 7.75) 2)\<rparr>,
            [ShowFare ''$7.75'' ''1.300 km''])"
proof -
  have first: "FareCalculator_updateContent
       (fixed_directions (one_leg_response (Fin 1300), DirectionsOK)) toronto_fare
       ''Union Station'' ''CN Tower'' no_route_priced
     = Inr (\<lparr>totalDistance = Some (Decimal (round_double 1.3) 3),
             distanceOverBase = Some (Decimal (round_double 0.8) 3),
             distanceFare = Some (Decimal (Fin 3.5) 2),
             totalFare = Some (Decimal (Fin 7.75) 2)\<rparr>,
            [ShowFare ''$7.75'' ''1.300 km''])"
    unfolding FareCalculator_updateContent_def fixed_directions_def prod.case doubles
    by (rule callback_toronto_1300)
  from fare_pipeline_deterministic
    [of "fixed_directions (one_leg_response (Fin 1300), DirectionsOK)" toronto_fare
        "''Union Station''" "''CN Tower''" no_route_priced no_route_priced] first
  show ?thesis
    by blast
qed
section \<open>Formatting\<close>

lemma digit_char_0: "digit_char 0 = CHR ''0''"
  by (simp add: digit_char_def)

lemma fixed_notation_2:
  "fixed_notation x 2 =
     (let n = nat \<lfloor>x * 100 + 1 / 2\<rfloor>
      in digits_of (n div 100) @ ''.''
         @ [digit_char (n div 10 mod 10), digit_char (n mod 10)])"
proof -
  define n where "n = nat \<lfloor>x * 100 + 1 / 2\<rfloor>"
  have n: "nat \<lfloor>x * 10 ^ 2 + 1 / 2\<rfloor> = n"
    by (simp add: n_def)
  consider "n < 10" | "10 \<le> n" "n < 100" | "100 \<le> n"
    by linarith
  then have "fixed_notation x 2 =
      digits_of (n div 100) @ ''.'' @ [digit_char (n div 10 mod 10), digit_char (n mod 10)]"
  proof cases
    case 1
    then show ?thesis
      unfolding fixed_notation_def n
      by (simp add: Let_def digits_of_small digit_char_0 numeral_2_eq_2)
  next
    case 2
    then have "n div 10 < 10" "n div 100 = 0"
      by simp_all
    with 2 show ?thesis
      unfolding fixed_notation_def n
      by (simp add: Let_def digits_of_small digits_of_large digit_char_0)
  next
    case 3
    then have a: "10 \<le> n" and b: "10 \<le> n div 10"
      by simp_all
    have c: "n div 10 div 10 = n div 100"
      by (simp add: div_mult2_eq [symmetric])
    show ?thesis
      unfolding fixed_notation_def n
      by (simp add: Let_def digits_of_large [OF a] digits_of_large [OF b] c
          digits_of_nonempty)
  qed
  then show ?thesis
    by (simp add: n_def Let_def)
qed

lemma fixed_notation_3:
  "fixed_notation x 3 =
     (let n = nat \<lfloor>x * 1000 + 1 / 2\<rfloor>
      in digits_of (n div 1000) @ ''.''
         @ [digit_char (n div 100 mod 10), digit_char (n div 10 mod 10),
            digit_char (n mod 10)])"
proof -
  define n where "n = nat \<lfloor>x * 1000 + 1 / 2\<rfloor>"
  have n: "nat \<lfloor>x * 10 ^ 3 + 1 / 2\<rfloor> = n"
    by (simp add: n_def)
  consider "n < 10" | "10 \<le> n" "n < 100" | "100 \<le> n" "n < 1000" | "1000 \<le> n"
    by linarith
  then have "fixed_notation x 3 =
      digits_of (n div 1000) @ ''.''
      @ [digit_char (n div 100 mod 10), digit_char (n div 10 mod 10), digit_char (n mod 10)]"
  proof cases
    case 1
    then show ?thesis
      unfolding fixed_notation_def n
      by (simp add: Let_def digits_of_small digit_char_0 numeral_3_eq_3)
  next
    case 2
    then have "n div 10 < 10" "n div 100 = 0" "n div 1000 = 0"
      by simp_all
    with 2 show ?thesis
      unfolding fixed_notation_def n
      by (simp add: Let_def digits_of_small digits_of_large digit_char_0 numeral_2_eq_2)
  next
    case 3
    then have a: "10 \<le> n" and b: "10 \<le> n div 10" and s: "n div 100 < 10"
      and z: "n div 1000 = 0"
      by simp_all
    have c: "n div 10 div 10 = n div 100"
      by (simp add: div_mult2_eq [symmetric])
    from s have m: "n div 100 mod 10 = n div 100"
      by simp
    show ?thesis
      unfolding fixed_notation_def n
      by (simp add: Let_def digits_of_large [OF a] digits_of_large [OF b] c
          digits_of_small [OF s] z m digits_of_small digit_char_0)
  next
    case 4
    then have a: "10 \<le> n" and b: "10 \<le> n div 10" and b': "10 \<le> n div 100"
      by simp_all
    have c: "n div 10 div 10 = n div 100" and c': "n div 100 div 10 = n div 1000"
      by (simp_all add: div_mult2_eq [symmetric])
    show ?thesis
      unfolding fixed_notation_def n
      by (simp add: Let_def digits_of_large [OF a] digits_of_large [OF b] c
          digits_of_large [OF b'] c' digits_of_nonempty)
  qed
  then show ?thesis
    by (simp add: n_def Let_def)
qed
text \<open>The values read in the examples of the formatting.\<close>

lemma formatted_reads:
  "valueOf (Decimal (Fin (10 ^ 21)) 0) = Fin (10 ^ 21)"
  "valueOf (Decimal (Fin 3) 0) = Fin 3"
  "valueOf (Decimal (Fin (8106479329266893 / 2 ^ 50)) 3) = Fin (8106479329266893 / 2 ^ 50)"
  "valueOf (Decimal (Fin (2036443309003925 / 2 ^ 48)) 3) = Fin (4072379963049771 / 2 ^ 49)"
  by (simp_all add: valueOf_0 valueOf_3 number_eval)

lemma formatted_doubles:
  "round_double 7.2 = Fin (8106479329266893 / 2 ^ 50)"
  "round_double 7.2349 = Fin (2036443309003925 / 2 ^ 48)"
  "round_double 7.234 = Fin (4072379963049771 / 2 ^ 49)"
  by (simp_all add: double_eval)

lemma formatted_texts:
  "toFixed (Fin 3) 2 = ''3.00''"
  "toFixed (Fin (8106479329266893 / 2 ^ 50)) 3 = ''7.200''"
  by (simp_all add: format_eval)

text \<open>The exponent notation of \<open>10^21\<close>, step by step.\<close>

lemma large_digits:
  "nat \<lfloor>1000000000000000000000 :: real\<rfloor> = 1000000000000000000000"
  "length (digits_of 1000000000000000000000) = 22"
  "digits_of 21 = ''21''"
  "digits_of (Suc 0) = ''1''"
  by (simp_all add: format_eval)

lemma large_doubles:
  "round_double 1000000000000000000000 = Fin 1000000000000000000000"
  "round_double 2000000000000000000000 = Fin 2000000000000000000000"
  "round_double 10000000000000000000000 = Fin 10000000000000000000000"
  by (simp_all add: double_eval)

lemma shortest_digits_large:
  "shortest_digits 1000000000000000000000 1000000000000000000000 22 (Suc 0) = Suc 0"
  by (subst shortest_digits.simps) (simp add: Let_def large_doubles)

lemma toFixed_large: "toFixed (Fin (10 ^ 21)) f = ''1e+21''"
  by (simp add: exponent_notation_def Let_def large_digits large_doubles shortest_digits_large)

text \<open>
  Claim C6 fails as stated: from \<open>10^21\<close> on \<open>toFixed\<close> answers in exponent notation,
  so \<open>Decimal(1e21, 0).toCurrency('$')\<close> is \<open>$1e+21\<close>, with no decimal places, and not
  \<open>$1000000000000000000000.00\<close>.
\<close>

theorem decimal_formatting_counterexample:
  "toCurrency (Decimal (Fin (10 ^ 21)) 0) ''$'' = ''$1e+21''
   \<and> toCurrency (Decimal (Fin (10 ^ 21)) 0) ''$'' \<noteq> ''$1000000000000000000000.00''
   \<and> toDistance (Decimal (Fin (10 ^ 21)) 0) '' km'' = ''1e+21 km''"
  unfolding toCurrency_def toDistance_def formatted_reads toFixed_large
  by simp

text \<open>
  Claim C6, amended. For every Decimal whose value is a finite number of magnitude below
  \<open>10^21\<close>, \<open>toCurrency(prefix)\<close> is the prefix, a minus sign for a negative value, and
  the magnitude rounded to the nearest hundredth (a tie goes up) written with its integer
  digits, a point and exactly 2 digits; \<open>toDistance(suffix)\<close> is the same with
  thousandths and exactly 3 digits, followed by the suffix. Both depend on the Decimal
  through its value only, not through its own \<open>decimalPlaces\<close>:
  \<open>Decimal(3, 0).toCurrency('$') = '$3.00'\<close> and
  \<open>Decimal(7.2, 3).toDistance(' km') = '7.200 km'\<close>. The value of a zero of either sign
  is \<open>0\<close>.
\<close>

theorem decimal_formatting:
  assumes "finite_value (valueOf d) = Some q"
    and "\<bar>q\<bar> < 10 ^ 21"
  shows "toCurrency d unitPrefix =
       unitPrefix @ (if q < 0 then ''-'' else [])
       @ (let n = nat \<lfloor>\<bar>q\<bar> * 100 + 1 / 2\<rfloor>
          in digits_of (n div 100) @ ''.''
             @ [digit_char (n div 10 mod 10), digit_char (n mod 10)])
    \<and> toDistance d unitSuffix =
       (if q < 0 then ''-'' else [])
       @ (let n = nat \<lfloor>\<bar>q\<bar> * 1000 + 1 / 2\<rfloor>
          in digits_of (n div 1000) @ ''.''
             @ [digit_char (n div 100 mod 10), digit_char (n div 10 mod 10),
                digit_char (n mod 10)])
       @ unitSuffix
    \<and> toCurrency (Decimal (Fin 3) 0) ''$'' = ''$3.00''
    \<and> toDistance (Decimal (round_double 7.2) 3) '' km'' = ''7.200 km''"
proof -
  from assms(2) have small: "\<not> 10 ^ 21 \<le> \<bar>q\<bar>"
    by simp
  have fixed: "toFixed (valueOf d) f = (if q < 0 then ''-'' else []) @ fixed_notation \<bar>q\<bar> f"
    for f
    using assms(1) small by (cases "valueOf d") simp_all
  have cur: "toCurrency d unitPrefix =
       unitPrefix @ (if q < 0 then ''-'' else [])
       @ (let n = nat \<lfloor>\<bar>q\<bar> * 100 + 1 / 2\<rfloor>
          in digits_of (n div 100) @ ''.''
             @ [digit_char (n div 10 mod 10), digit_char (n mod 10)])"
    unfolding toCurrency_def fixed fixed_notation_2 by (rule refl)
  have dist: "toDistance d unitSuffix =
       (if q < 0 then ''-'' else [])
       @ (let n = nat \<lfloor>\<bar>q\<bar> * 1000 + 1 / 2\<rfloor>
          in digits_of (n div 1000) @ ''.''
             @ [digit_char (n div 100 mod 10), digit_char (n div 10 mod 10),
                digit_char (n mod 10)])
       @ unitSuffix"
    unfolding toDistance_def fixed fixed_notation_3 by simp
  have three: "toCurrency (Decimal (Fin 3) 0) ''$'' = ''$3.00''"
    unfolding toCurrency_def formatted_reads formatted_texts by simp
  have seven: "toDistance (Decimal (round_double 7.2) 3) '' km'' = ''7.200 km''"
    unfolding toDistance_def formatted_doubles formatted_reads formatted_texts by simp
  from cur dist three seven show ?thesis
    by blast
qed

theorem decimal_formatting_witness:
  "finite_value (valueOf (Decimal (round_double 7.2349) 3)) = Some (4072379963049771 / 2 ^ 49)
   \<and> round_double 7.234 = Fin (4072379963049771 / 2 ^ 49)
   \<and> \<bar>4072379963049771 / 2 ^ 49 :: real\<bar> < 10 ^ 21
   \<and> toCurrency (Decimal (round_double 7.2349) 3) ''$'' = ''$7.23''
   \<and> toDistance (Decimal (round_double 7.2349) 3) '' km'' = ''7.234 km''"
proof -
  have v: "finite_value (valueOf (Decimal (round_double 7.2349) 3))
      = Some (4072379963049771 / 2 ^ 49)"
    unfolding formatted_doubles formatted_reads by simp
  have s: "\<bar>4072379963049771 / 2 ^ 49 :: real\<bar> < 10 ^ 21"
    by simp
  from decimal_formatting [OF v s, of "''$''" "'' km''"]
  have "toCurrency (Decimal (round_double 7.2349) 3) ''$'' = ''$7.23''"
    and "toDistance (Decimal (round_double 7.2349) 3) '' km'' = ''7.234 km''"
    by (simp_all add: Let_def digits_of_small digits_of_large digit_char_def)
  with v s formatted_doubles(3) show ?thesis
    by blast
qed

section \<open>Failures of the mapping service\<close>

lemma array_set_two:
  assumes "length xs \<le> 2"
  shows "array_set (array_set xs 0 a) 1 b = [Some a, Some b]"
proof (cases xs)
  case Nil
  then show ?thesis
    by (simp add: array_set_def)
next
  case (Cons x ys)
  with assms have "length ys \<le> 1"
    by simp
  then show ?thesis
    using Cons by (cases ys) (simp_all add: array_set_def)
qed

lemma array_get_two:
  "array_get (array_set (array_set xs 0 a) (Suc 0) b) 0 = Some a"
  "array_get (array_set (array_set xs 0 a) (Suc 0) b) (Suc 0) = Some b"
proof -
  show "array_get (array_set (array_set xs 0 a) (Suc 0) b) 0 = Some a"
  proof (cases xs)
    case Nil
    then show ?thesis
      by (simp add: array_set_def array_get_def)
  next
    case (Cons x ys)
    then show ?thesis
      by (cases ys) (simp_all add: array_set_def array_get_def)
  qed
  show "array_get (array_set (array_set xs 0 a) (Suc 0) b) (Suc 0) = Some b"
  proof (cases xs)
    case Nil
    then show ?thesis
      by (simp add: array_set_def array_get_def)
  next
    case (Cons x ys)
    then show ?thesis
      by (cases ys) (simp_all add: array_set_def array_get_def)
  qed
qed

lemma display_calls_showMap: "display_calls (showMap answer center a b) = []"
  by (simp add: display_calls_def showMap_def)

lemma display_calls_message: "display_calls [FareOutput call] = [call]"
  by (simp add: display_calls_def)

lemma codeAddresses_end:
  "codeAddresses geocode answer msg cls [a1, a2] (Suc (Suc 0))
     (this\<lparr>codedAddresses := array_set (array_set xs 0 p) (Suc 0) q\<rparr>) =
   Inr (this\<lparr>codedAddresses := array_set (array_set xs 0 p) (Suc 0) q\<rparr>,
        showMap answer
          \<lparr>lat = js_div (js_add (lat p) (lat q)) (Fin 2),
           lng = js_div (js_add (lng p) (lng q)) (Fin 2)\<rparr> p q)"
  by (subst codeAddresses.simps) (simp add: array_get_two)

lemma codeAddresses_second:
  "codeAddresses geocode answer msg cls [a1, a2] (Suc 0)
     (this\<lparr>codedAddresses := array_set xs 0 p\<rparr>) =
   (case geocode a2 of
      (results, status) \<Rightarrow>
        if status = GeocoderOK then
          (case results of
             [] \<Rightarrow> Inl TypeError
           | r # _ \<Rightarrow>
               Inr (this\<lparr>codedAddresses :=
                          array_set (array_set xs 0 p) (Suc 0) (location r)\<rparr>,
                    showMap answer
                      \<lparr>lat = js_div (js_add (lat p) (lat (location r))) (Fin 2),
                       lng = js_div (js_add (lng p) (lng (location r))) (Fin 2)\<rparr>
                      p (location r)))
        else Inr (this\<lparr>codedAddresses := array_set xs 0 p\<rparr>,
                  [FareOutput (ShowMessage msg cls)]))"
  by (subst codeAddresses.simps) (simp add: codeAddresses_end split: prod.splits list.splits)

lemma codeAddresses_first:
  "codeAddresses geocode answer msg cls [a1, a2] 0 this =
   (case geocode a1 of
      (results, status) \<Rightarrow>
        if status = GeocoderOK then
          (case results of
             [] \<Rightarrow> Inl TypeError
           | r # _ \<Rightarrow>
               codeAddresses geocode answer msg cls [a1, a2] (Suc 0)
                 (this\<lparr>codedAddresses := array_set (codedAddresses this) 0 (location r)\<rparr>))
        else Inr (this, [FareOutput (ShowMessage msg cls)]))"
  by (subst codeAddresses.simps) (simp split: prod.splits list.splits)

lemma map_side_calls_eq:
  assumes "length (addresses m) \<le> 2"
  shows "map_side_calls geocode mapDirections msg cls origin destination m =
     (if snd (geocode (Some origin)) \<noteq> GeocoderOK then [ShowMessage msg cls]
      else if fst (geocode (Some origin)) = [] then []
      else if snd (geocode (Some destination)) \<noteq> GeocoderOK then [ShowMessage msg cls]
      else [])"
  unfolding map_side_calls_def MapDisplay_updateContent_def Let_def
    array_set_two [OF assms] codeAddresses_first codeAddresses_second
  by (cases "geocode (Some origin)"; cases "geocode (Some destination)")
    (auto simp add: display_calls_message display_calls_showMap split: list.splits)

text \<open>
  The address array is empty before the first click, and \<open>updateContent\<close> leaves the
  two addresses of the request in it: it never holds more than two entries.
\<close>

lemma MapDisplay_keeps_addresses:
  assumes "length (addresses m) \<le> 2"
    and "MapDisplay_updateContent geocode mapDirections msg cls origin destination m
           = Inr (m', es)"
  shows "addresses m' = [Some origin, Some destination]"
  using assms(2)
  unfolding MapDisplay_updateContent_def Let_def array_set_two [OF assms(1)]
    codeAddresses_first codeAddresses_second
  by (cases "geocode (Some origin)"; cases "geocode (Some destination)")
    (auto split: list.splits if_splits)

lemma fare_side_calls_eq:
  "fare_side_calls fareDirections fare origin destination c =
     (if snd (fareDirections origin destination) = DirectionsOK then
        (case route_callback fare (fst (fareDirections origin destination)) DirectionsOK c of
           Inl e \<Rightarrow> []
         | Inr (c', calls) \<Rightarrow> calls)
      else [])"
  by (cases "fareDirections origin destination")
    (simp add: fare_side_calls_def FareCalculator_updateContent_def route_callback_def)

lemma geocoder_finds_known:
  "a \<in> set known \<Longrightarrow> snd (geocoder_finds known (Some a)) = GeocoderOK"
  "a \<in> set known \<Longrightarrow> fst (geocoder_finds known (Some a)) \<noteq> []"
  "a \<notin> set known \<Longrightarrow> snd (geocoder_finds known (Some a)) = GeocoderZeroResults"
  by (simp_all add: geocoder_finds_def)

lemma map_not_clicked_length: "length (addresses map_not_clicked) \<le> 2"
  by (simp add: map_not_clicked_def)

text \<open>
  Claim C3 fails as stated: when both addresses are geocoded and the directions service
  finds no route, the click shows no message at all (and no fare).
\<close>

theorem uniform_failure_counterexample:
  "snd (fixed_directions no_route ''Union Station'' ''CN Tower'') \<noteq> DirectionsOK
   \<and> click_calls (geocoder_finds [''Union Station'', ''CN Tower''])
        (fixed_directions no_route) (fixed_directions no_route)
        ''Invalid address'' ''error'' toronto_fare
        ''Union Station'' ''CN Tower'' map_not_clicked no_route_priced
      = []"
  by (simp add: click_calls_def map_side_calls_eq [OF map_not_clicked_length]
      fare_side_calls_eq geocoder_finds_known fixed_directions_def no_route_def)

text \<open>
  Claim C3, amended. From a map display whose address array holds at most the two
  entries that \<open>updateContent\<close> writes: if the geocoder does not resolve the origin, or
  resolves the origin and not the destination, the map display shows the one fixed error
  message with the error class, once; if the directions service reports a status other
  than OK to the fare calculator, no fare is shown; and when both happen, that message
  is the only call that reaches the output field.
\<close>

theorem geocoding_failure_message:
  assumes "length (addresses m) \<le> 2"
  shows "(snd (geocode (Some origin)) \<noteq> GeocoderOK
        \<longrightarrow> map_side_calls geocode mapDirections errorMessage errorClass origin destination m
            = [ShowMessage errorMessage errorClass])
    \<and> (snd (geocode (Some origin)) = GeocoderOK \<and> fst (geocode (Some origin)) \<noteq> []
        \<and> snd (geocode (Some destination)) \<noteq> GeocoderOK
        \<longrightarrow> map_side_calls geocode mapDirections errorMessage errorClass origin destination m
            = [ShowMessage errorMessage errorClass])
    \<and> (snd (fareDirections origin destination) \<noteq> DirectionsOK
        \<longrightarrow> fare_side_calls fareDirections fare origin destination c = [])
    \<and> ((snd (geocode (Some origin)) \<noteq> GeocoderOK
          \<or> fst (geocode (Some origin)) \<noteq> []
            \<and> snd (geocode (Some destination)) \<noteq> GeocoderOK)
        \<and> snd (fareDirections origin destination) \<noteq> DirectionsOK
        \<longrightarrow> click_calls geocode mapDirections fareDirections errorMessage errorClass fare
              origin destination m c
            = [ShowMessage errorMessage errorClass])"
  by (simp add: click_calls_def map_side_calls_eq [OF assms] fare_side_calls_eq)

theorem geocoding_failure_message_witness:
  "length (addresses map_not_clicked) \<le> 2
   \<and> snd (geocoder_finds [''CN Tower''] (Some ''Nowhere'')) \<noteq> GeocoderOK
   \<and> snd (geocoder_finds [''Union Station''] (Some ''Union Station'')) = GeocoderOK
   \<and> fst (geocoder_finds [''Union Station''] (Some ''Union Station'')) \<noteq> []
   \<and> snd (geocoder_finds [''Union Station''] (Some ''Nowhere'')) \<noteq> GeocoderOK
   \<and> snd (fixed_directions no_route ''Nowhere'' ''CN Tower'') \<noteq> DirectionsOK
   \<and> click_calls (geocoder_finds [''CN Tower'']) (fixed_directions no_route)
        (fixed_directions no_route) ''Invalid address''
        ''error'' toronto_fare ''Nowhere'' ''CN Tower'' map_not_clicked no_route_priced
      = [ShowMessage ''Invalid address'' ''error'']
   \<and> click_calls (geocoder_finds [''Union Station'']) (fixed_directions no_route)
        (fixed_directions no_route) ''Invalid address''
        ''error'' toronto_fare ''Union Station'' ''Nowhere'' map_not_clicked no_route_priced
      = [ShowMessage ''Invalid address'' ''error'']"
proof -
  have origin_fails: "snd (geocoder_finds [''CN Tower''] (Some ''Nowhere'')) \<noteq> GeocoderOK"
    by (simp add: geocoder_finds_def)
  have origin_found:
    "snd (geocoder_finds [''Union Station''] (Some ''Union Station'')) = GeocoderOK"
    "fst (geocoder_finds [''Union Station''] (Some ''Union Station'')) \<noteq> []"
    by (simp_all add: geocoder_finds_def)
  have destination_fails:
    "snd (geocoder_finds [''Union Station''] (Some ''Nowhere'')) \<noteq> GeocoderOK"
    by (simp add: geocoder_finds_def)
  have no_route_any: "snd (fixed_directions no_route a b) \<noteq> DirectionsOK" for a b
    by (simp add: fixed_directions_def no_route_def)
  have first: "click_calls (geocoder_finds [''CN Tower'']) (fixed_directions no_route)
        (fixed_directions no_route) ''Invalid address''
        ''error'' toronto_fare ''Nowhere'' ''CN Tower'' map_not_clicked no_route_priced
      = [ShowMessage ''Invalid address'' ''error'']"
    using geocoding_failure_message [OF map_not_clicked_length,
        of "geocoder_finds [''CN Tower'']" "''Nowhere''" "fixed_directions no_route"
          "''Invalid address''" "''error''" "''CN Tower''"
          "fixed_directions no_route" toronto_fare no_route_priced]
      origin_fails no_route_any
    by simp
  have second: "click_calls (geocoder_finds [''Union Station'']) (fixed_directions no_route)
        (fixed_directions no_route) ''Invalid address''
        ''error'' toronto_fare ''Union Station'' ''Nowhere'' map_not_clicked no_route_priced
      = [ShowMessage ''Invalid address'' ''error'']"
    using geocoding_failure_message [OF map_not_clicked_length,
        of "geocoder_finds [''Union Station'']" "''Union Station''" "fixed_directions no_route"
          "''Invalid address''" "''error''" "''Nowhere''"
          "fixed_directions no_route" toronto_fare no_route_priced]
      origin_found destination_fails no_route_any
    by simp
  from first second origin_fails origin_found destination_fails no_route_any
    map_not_clicked_length
  show ?thesis
    by simp
qed

text \<open>
  Claim C4. On a status other than OK the fare calculator's callback calls neither
  \<open>showFare\<close> nor \<open>showMessage\<close> and leaves the calculator's variables as they were.
  A message in the output field comes from \<open>MapDisplay.codeAddresses\<close> alone, after a
  geocoding failure, and it is the configured error message. So a directions failure
  between two addresses that the geocoder resolves sends nothing to the output field.
\<close>

theorem directions_failure_silent:
  assumes "status \<noteq> DirectionsOK"
    and "length (addresses m) \<le> 2"
  shows "route_callback fare response status c = Inr (c, [])
    \<and> (snd (fareDirections origin destination) \<noteq> DirectionsOK
        \<longrightarrow> FareCalculator_updateContent fareDirections fare origin destination c
            = Inr (c, []))
    \<and> (ShowMessage message cls
          \<in> set (click_calls geocode mapDirections fareDirections errorMessage errorClass
                   fare origin destination m c)
        \<longrightarrow> (snd (geocode (Some origin)) \<noteq> GeocoderOK
             \<or> snd (geocode (Some destination)) \<noteq> GeocoderOK)
            \<and> message = errorMessage \<and> cls = errorClass)
    \<and> (snd (geocode (Some origin)) = GeocoderOK
        \<and> snd (geocode (Some destination)) = GeocoderOK
        \<and> snd (fareDirections origin destination) \<noteq> DirectionsOK
        \<longrightarrow> click_calls geocode mapDirections fareDirections errorMessage errorClass fare
              origin destination m c
            = [])"
proof -
  have callback: "route_callback fare response status c = Inr (c, [])"
    using assms(1) by (simp add: route_callback_def)
  have update: "FareCalculator_updateContent fareDirections fare origin destination c
      = Inr (c, [])"
    if "snd (fareDirections origin destination) \<noteq> DirectionsOK"
    using that
    by (cases "fareDirections origin destination")
      (simp add: FareCalculator_updateContent_def route_callback_def)
  have fare_shows: "ShowMessage message cls
      \<notin> set (fare_side_calls fareDirections fare origin destination c)"
  proof (cases "fareDirections origin destination")
    case (Pair answer answer_status)
    then show ?thesis
      by (cases "first_leg_distance answer")
        (simp_all add: fare_side_calls_def FareCalculator_updateContent_def
          route_callback_def Let_def)
  qed
  have origin_of_message:
    "(snd (geocode (Some origin)) \<noteq> GeocoderOK
       \<or> snd (geocode (Some destination)) \<noteq> GeocoderOK)
     \<and> message = errorMessage \<and> cls = errorClass"
    if "ShowMessage message cls
          \<in> set (click_calls geocode mapDirections fareDirections errorMessage errorClass
                   fare origin destination m c)"
  proof -
    from that fare_shows have "ShowMessage message cls
      \<in> set (map_side_calls geocode mapDirections errorMessage errorClass
               origin destination m)"
      by (simp add: click_calls_def)
    then show ?thesis
      by (simp add: map_side_calls_eq [OF assms(2)] split: if_splits)
  qed
  have silent: "click_calls geocode mapDirections fareDirections errorMessage errorClass fare
              origin destination m c = []"
    if "snd (geocode (Some origin)) = GeocoderOK
        \<and> snd (geocode (Some destination)) = GeocoderOK
        \<and> snd (fareDirections origin destination) \<noteq> DirectionsOK"
    using that
    by (simp add: click_calls_def map_side_calls_eq [OF assms(2)] fare_side_calls_eq)
  from callback update origin_of_message silent show ?thesis
    by blast
qed

theorem directions_failure_silent_witness:
  "DirectionsZeroResults \<noteq> DirectionsOK
   \<and> length (addresses map_not_clicked) \<le> 2
   \<and> route_callback toronto_fare (one_leg_response (Fin 1300)) DirectionsZeroResults
        no_route_priced = Inr (no_route_priced, [])
   \<and> snd (geocoder_finds [''Union Station'', ''CN Tower''] (Some ''Union Station''))
       = GeocoderOK
   \<and> snd (geocoder_finds [''Union Station'', ''CN Tower''] (Some ''CN Tower'')) = GeocoderOK
   \<and> snd (fixed_directions no_route ''Union Station'' ''CN Tower'') \<noteq> DirectionsOK
   \<and> FareCalculator_updateContent (fixed_directions no_route) toronto_fare
        ''Union Station'' ''CN Tower'' no_route_priced = Inr (no_route_priced, [])
   \<and> click_calls (geocoder_finds [''Union Station'', ''CN Tower''])
        (fixed_directions no_route) (fixed_directions no_route)
        ''Invalid address'' ''error'' toronto_fare
        ''Union Station'' ''CN Tower'' map_not_clicked no_route_priced = []
   \<and> ShowMessage ''Invalid address'' ''error''
       \<in> set (click_calls (geocoder_finds [''CN Tower''])
                (fixed_directions no_route) (fixed_directions no_route)
                ''Invalid address'' ''error'' toronto_fare
                ''Nowhere'' ''CN Tower'' map_not_clicked no_route_priced)
   \<and> snd (geocoder_finds [''CN Tower''] (Some ''Nowhere'')) \<noteq> GeocoderOK"
proof -
  have status: "DirectionsZeroResults \<noteq> DirectionsOK"
    by simp
  have found:
    "snd (geocoder_finds [''Union Station'', ''CN Tower''] (Some ''Union Station''))
       = GeocoderOK"
    "snd (geocoder_finds [''Union Station'', ''CN Tower''] (Some ''CN Tower'')) = GeocoderOK"
    by (simp_all add: geocoder_finds_def)
  have no_route_any: "snd (fixed_directions no_route a b) \<noteq> DirectionsOK" for a b
    by (simp add: fixed_directions_def no_route_def)
  note both = directions_failure_silent [OF status map_not_clicked_length,
      of toronto_fare "one_leg_response (Fin 1300)" no_route_priced
        "fixed_directions no_route" "''Union Station''" "''CN Tower''"
        "''Invalid address''" "''error''"
        "geocoder_finds [''Union Station'', ''CN Tower'']" "fixed_directions no_route"
        "''Invalid address''" "''error''"]
  note one = directions_failure_silent [OF status map_not_clicked_length,
      of toronto_fare "one_leg_response (Fin 1300)" no_route_priced
        "fixed_directions no_route" "''Nowhere''" "''CN Tower''"
        "''Invalid address''" "''error''"
        "geocoder_finds [''CN Tower'']" "fixed_directions no_route"
        "''Invalid address''" "''error''"]
  have shown: "ShowMessage ''Invalid address'' ''error''
       \<in> set (click_calls (geocoder_finds [''CN Tower''])
                (fixed_directions no_route) (fixed_directions no_route)
                ''Invalid address'' ''error'' toronto_fare
                ''Nowhere'' ''CN Tower'' map_not_clicked no_route_priced)"
    by (simp add: click_calls_def map_side_calls_eq [OF map_not_clicked_length]
        geocoder_finds_def)
  have origin_fails: "snd (geocoder_finds [''CN Tower''] (Some ''Nowhere'')) \<noteq> GeocoderOK"
    using one shown by (simp add: geocoder_finds_def)
  from both one shown origin_fails found no_route_any status map_not_clicked_length
  show ?thesis
    by simp
qed

end
